theory Spec2Isabelle
  imports Main
begin

section \<open>JavaScript values and property lists\<close>

text \<open>
  The code under study is the test harness of the article
  \<^verbatim>\<open>real-world-unit-testing-nodejs\<close>: the files \<^verbatim>\<open>db.js\<close> and
  \<^verbatim>\<open>helper.js\<close>. Documents, option objects and pipelines are plain
  JavaScript values. An object is kept as its list of own properties in
  insertion order.
\<close>

datatype jsval =
    JUndefined
  | JNull
  | JBool bool
  | JNum int
  | JStr string
  | JArr "jsval list"
  | JObj "(string \<times> jsval) list"

type_synonym 'v props = "(string \<times> 'v) list"

text \<open>\<^verbatim>\<open>Array.isArray(v)\<close>.\<close>

fun isArray :: "jsval \<Rightarrow> bool" where
  "isArray (JArr _) = True"
| "isArray _ = False"

text \<open>
  \<^verbatim>\<open>o[k] = v\<close> on own properties: an existing property keeps its place and
  takes the new value, a new property is added last.
\<close>

fun set_prop :: "string \<Rightarrow> 'v \<Rightarrow> 'v props \<Rightarrow> 'v props" where
  "set_prop k v [] = [(k, v)]"
| "set_prop k v ((k', v') # ps) =
     (if k = k' then (k, v) # ps else (k', v') # set_prop k v ps)"

section \<open>The external world: the MongoDB driver\<close>

text \<open>
  The driver and the database server are not part of the repository. They are
  a parameter of the model: a state \<open>'w\<close> of the outside world, and for each
  driver operation the code awaits a function from the world to an outcome
  and the world afterwards. A rejected promise (a thrown error once awaited)
  is the outcome \<open>Inl\<close>.
\<close>

datatype error = MongoError string

type_synonym options = "jsval props"

datatype call =
    Connect string options
  | InsertMany string jsval
  | InsertOne string jsval
  | DropCollection string
  | Aggregate string jsval

text \<open>
  \<open>calls\<close> is the history of the driver operations issued so far, oldest
  first, each with whether it completed without an error.
\<close>

record 'w env =
  world :: 'w
  calls :: "(call \<times> bool) list"

fun succeeded :: "error + 'a \<Rightarrow> bool" where
  "succeeded (Inl _) = False"
| "succeeded (Inr _) = True"

text \<open>
  \<^verbatim>\<open>await op\<close>: the operation runs to completion on the current world
  before the caller continues with its outcome.
\<close>

definition await :: "call \<Rightarrow> ('w \<Rightarrow> (error + 'a) \<times> 'w) \<Rightarrow> 'w env \<Rightarrow> (error + 'a) \<times> 'w env" where
  "await c op e =
     (case op (world e) of
        (r, w) \<Rightarrow> (r, \<lparr>world = w, calls = calls e @ [(c, succeeded r)]\<rparr>))"

section \<open>db.js: the address\<close>

text \<open>
  \<^verbatim>\<open>const dbUrl = process.env.DB_URL || 'mongodb://localhost:27017/maxfitness';\<close>

  \<^verbatim>\<open>process.env\<close> is an object whose own properties are the variables
  that are set, each a string; reading a variable that is not set gives
  \<^verbatim>\<open>undefined\<close> (here \<open>None\<close>). The operator \<^verbatim>\<open>||\<close> yields its left
  operand when that is truthy and its right operand otherwise; a string is
  truthy when it is not empty, \<^verbatim>\<open>undefined\<close> is not truthy.
\<close>

definition js_or :: "string option \<Rightarrow> string \<Rightarrow> string" where
  "js_or a b = (case a of None \<Rightarrow> b | Some s \<Rightarrow> if s = [] then b else s)"

definition dbUrl :: "string props \<Rightarrow> string" where
  "dbUrl process_env =
     js_or (map_of process_env ''DB_URL'') ''mongodb://localhost:27017/maxfitness''"

section \<open>db.js: createClient\<close>

text \<open>
  \<^verbatim>\<open>MongoClient.connect(url, opts)\<close> and \<^verbatim>\<open>client.db()\<close>. Opening a
  session is an operation on the world that can fail. Selecting the default
  database of a connected client is a lookup in the client: it does not
  touch the world and has no failure of its own.
\<close>

record ('c, 'b, 'w) driver =
  MongoClient_connect :: "string \<Rightarrow> options \<Rightarrow> 'w \<Rightarrow> (error + 'c) \<times> 'w"
  client_db :: "'c \<Rightarrow> 'b"

text \<open>
  The object \<^verbatim>\<open>{client, db}\<close>. Every evaluation of an object literal makes
  a new object; \<open>oid\<close> is the identity of the object, so that two handles are
  the same object (\<^verbatim>\<open>===\<close>) exactly when they are equal here. The code
  never writes to a handle after making it.
\<close>

record ('c, 'b) handle =
  oid :: nat
  client :: 'c
  db :: 'b

text \<open>
  \<^verbatim>\<open>const clientCache = {};\<close> is an ordinary object: reading
  \<^verbatim>\<open>clientCache[key]\<close> finds an own property first and a property inherited
  from \<^verbatim>\<open>Object.prototype\<close> otherwise. The inherited properties are functions
  and, for \<^verbatim>\<open>__proto__\<close>, the prototype object: all truthy.
\<close>

datatype ('c, 'b) cached = Handle "('c, 'b) handle" | Inherited string

definition object_prototype_keys :: "string list" where
  "object_prototype_keys =
     [''constructor'', ''__defineGetter__'', ''__defineSetter__'', ''hasOwnProperty'',
      ''__lookupGetter__'', ''__lookupSetter__'', ''isPrototypeOf'',
      ''propertyIsEnumerable'', ''toString'', ''valueOf'', ''__proto__'',
      ''toLocaleString'']"

text \<open>
  \<open>get_prop cache key\<close> is \<open>Some v\<close> when \<^verbatim>\<open>clientCache[key]\<close> is the truthy
  value \<open>v\<close>, and \<open>None\<close> when it is \<^verbatim>\<open>undefined\<close>. Own properties are
  handles, which are objects and so truthy.
\<close>

definition get_prop :: "('c, 'b) handle props \<Rightarrow> string \<Rightarrow> ('c, 'b) cached option" where
  "get_prop cache key =
     (case map_of cache key of
        Some h \<Rightarrow> Some (Handle h)
      | None \<Rightarrow> if key \<in> set object_prototype_keys then Some (Inherited key) else None)"

record ('c, 'b, 'w) state =
  clientCache :: "('c, 'b) handle props"
  next_oid :: nat
  ext :: "'w env"

definition init_state :: "'w \<Rightarrow> ('c, 'b, 'w) state" where
  "init_state w = \<lparr>clientCache = [], next_oid = 0, ext = \<lparr>world = w, calls = []\<rparr>\<rparr>"

text \<open>
  \<^verbatim>\<open>{...options, useNewUrlParser: true, useUnifiedTopology: true}\<close>: the own
  properties of \<open>options\<close> are copied (none when \<open>options\<close> is
  \<^verbatim>\<open>undefined\<close>, here \<open>None\<close>), then the two fixed properties are set.
\<close>

definition spread :: "options option \<Rightarrow> options" where
  "spread options = (case options of None \<Rightarrow> [] | Some ps \<Rightarrow> ps)"

definition connectionOpts :: "options option \<Rightarrow> options" where
  "connectionOpts options =
     set_prop ''useUnifiedTopology'' (JBool True)
       (set_prop ''useNewUrlParser'' (JBool True) (spread options))"

definition createClient ::
  "('c, 'b, 'w) driver \<Rightarrow> string \<Rightarrow> options option \<Rightarrow> ('c, 'b, 'w) state
     \<Rightarrow> (error + ('c, 'b) cached) \<times> ('c, 'b, 'w) state" where
  "createClient drv url options s =
     (let cacheKey = url;
          opts = connectionOpts options
      in case get_prop (clientCache s) cacheKey of
           Some v \<Rightarrow> (Inr v, s)
         | None \<Rightarrow>
             (case await (Connect url opts) (MongoClient_connect drv url opts) (ext s) of
                (Inl err, e) \<Rightarrow> (Inl err, s\<lparr>ext := e\<rparr>)
              | (Inr c, e) \<Rightarrow>
                  (let d = client_db drv c;
                       stored = \<lparr>oid = next_oid s, client = c, db = d\<rparr>;
                       returned = \<lparr>oid = next_oid s + 1, client = c, db = d\<rparr>
                   in (Inr (Handle returned),
                       s\<lparr>clientCache := set_prop cacheKey stored (clientCache s),
                         next_oid := next_oid s + 2,
                         ext := e\<rparr>))))"










text \<open>Do two results of \<open>createClient\<close> hold the same session and database?\<close>

fun same_session :: "('c, 'b) cached \<Rightarrow> ('c, 'b) cached \<Rightarrow> bool" where
  "same_session (Handle h1) (Handle h2) = (client h1 = client h2 \<and> db h1 = db h2)"
| "same_session (Inherited k1) (Inherited k2) = (k1 = k2)"
| "same_session _ _ = False"

text \<open>
  A driver for running the model on concrete inputs: the world is the list of
  outcomes the next connection attempts will have, and no server answers
  once the list is used up. A client is a number; its database is named
  after it.
\<close>

definition scripted_connect :: "string \<Rightarrow> options \<Rightarrow> (error + nat) list \<Rightarrow> (error + nat) \<times> (error + nat) list" where
  "scripted_connect url opts w =
     (case w of [] \<Rightarrow> (Inl (MongoError ''ECONNREFUSED''), []) | r # rs \<Rightarrow> (r, rs))"

definition scripted :: "(nat, string \<times> nat, (error + nat) list) driver" where
  "scripted = \<lparr>MongoClient_connect = scripted_connect, client_db = Pair ''db''\<rparr>"


section \<open>helper.js\<close>

text \<open>
  The database object \<^verbatim>\<open>db\<close> as the operations the helpers await on it:
  \<^verbatim>\<open>db.collection(name).insertMany(docs)\<close>,
  \<^verbatim>\<open>db.collection(name).insertOne(doc)\<close>, \<^verbatim>\<open>db.dropCollection(name)\<close> and
  \<^verbatim>\<open>db.collection(name).aggregate(pipeline).toArray()\<close>. The inserts and the
  drop resolve to a result value that the helpers discard.
\<close>

record 'w Db =
  collection_insertMany :: "string \<Rightarrow> jsval \<Rightarrow> 'w \<Rightarrow> (error + jsval) \<times> 'w"
  collection_insertOne :: "string \<Rightarrow> jsval \<Rightarrow> 'w \<Rightarrow> (error + jsval) \<times> 'w"
  dropCollection :: "string \<Rightarrow> 'w \<Rightarrow> (error + jsval) \<times> 'w"
  collection_aggregate_toArray :: "string \<Rightarrow> jsval \<Rightarrow> 'w \<Rightarrow> (error + jsval list) \<times> 'w"

text \<open>An awaited statement whose value is not used.\<close>

definition discard :: "(error + 'a) \<times> 'w env \<Rightarrow> (error + unit) \<times> 'w env" where
  "discard p = (case p of (Inl err, e) \<Rightarrow> (Inl err, e) | (Inr _, e) \<Rightarrow> (Inr (), e))"

definition insertResource ::
  "'w Db \<Rightarrow> string \<Rightarrow> jsval \<Rightarrow> 'w env \<Rightarrow> (error + unit) \<times> 'w env" where
  "insertResource database collectionName resource e =
     (if isArray resource
      then discard (await (InsertMany collectionName resource)
                      (collection_insertMany database collectionName resource) e)
      else discard (await (InsertOne collectionName resource)
                      (collection_insertOne database collectionName resource) e))"


definition aggregate ::
  "'w Db \<Rightarrow> string \<Rightarrow> jsval \<Rightarrow> 'w env \<Rightarrow> (error + jsval list) \<times> 'w env" where
  "aggregate database collectionName pipeline e =
     await (Aggregate collectionName pipeline)
       (collection_aggregate_toArray database collectionName pipeline) e"

text \<open>
  A small database for running the helpers on concrete inputs: the world is
  the list of collections with their documents. Like the server it refuses
  to drop a collection that does not exist and an insert of no documents;
  its query engine returns the collection as stored, whatever the pipeline.
\<close>

type_synonym store = "(string \<times> jsval list) list"

definition docs_of :: "store \<Rightarrow> string \<Rightarrow> jsval list" where
  "docs_of w c = (case map_of w c of None \<Rightarrow> [] | Some ds \<Rightarrow> ds)"

definition store_insertOne :: "string \<Rightarrow> jsval \<Rightarrow> store \<Rightarrow> (error + jsval) \<times> store" where
  "store_insertOne c d w = (Inr (JNum 1), set_prop c (docs_of w c @ [d]) w)"

fun store_insertMany :: "string \<Rightarrow> jsval \<Rightarrow> store \<Rightarrow> (error + jsval) \<times> store" where
  "store_insertMany c (JArr []) w =
     (Inl (MongoError ''Invalid Operation, no operations specified''), w)"
| "store_insertMany c (JArr ds) w =
     (Inr (JNum (int (length ds))), set_prop c (docs_of w c @ ds) w)"
| "store_insertMany c _ w =
     (Inl (MongoError ''docs parameter must be an array of documents''), w)"

definition store_dropCollection :: "string \<Rightarrow> store \<Rightarrow> (error + jsval) \<times> store" where
  "store_dropCollection c w =
     (if c \<in> set (map fst w)
      then (Inr (JBool True), filter (\<lambda>p. fst p \<noteq> c) w)
      else (Inl (MongoError ''ns not found''), w))"

definition store_aggregate :: "string \<Rightarrow> jsval \<Rightarrow> store \<Rightarrow> (error + jsval list) \<times> store" where
  "store_aggregate c pipeline w = (Inr (docs_of w c), w)"

definition store_db :: "store Db" where
  "store_db =
     \<lparr>collection_insertMany = store_insertMany,
      collection_insertOne = store_insertOne,
      dropCollection = store_dropCollection,
      collection_aggregate_toArray = store_aggregate\<rparr>"

section \<open>Property lists\<close>

lemma map_of_set_prop: "map_of (set_prop k v ps) = (map_of ps)(k \<mapsto> v)"
  by (induction ps) (auto simp: fun_eq_iff)



section \<open>The address\<close>

text \<open>
  C7, as found in the code: the address is the value of \<^verbatim>\<open>DB_URL\<close> whenever
  that variable is set to a string that is not empty, and it is the local
  default \<^verbatim>\<open>mongodb://localhost:27017/maxfitness\<close> when the variable is
  not set or is set to the empty string.
\<close>

theorem dbUrl_source:
  "(map_of process_env ''DB_URL'' = Some v \<and> v \<noteq> [] \<longrightarrow> dbUrl process_env = v) \<and>
   (map_of process_env ''DB_URL'' = None \<or> map_of process_env ''DB_URL'' = Some [] \<longrightarrow>
      dbUrl process_env = ''mongodb://localhost:27017/maxfitness'')"
  by (auto simp: dbUrl_def js_or_def)

text \<open>
  The address with \<^verbatim>\<open>DB_URL\<close> set among other variables, and with
  \<^verbatim>\<open>DB_URL\<close> not set.
\<close>

theorem dbUrl_source_witness:
  "dbUrl [(''HOME'', ''/root''), (''DB_URL'', ''mongodb://staging:27017/fit'')] = ''mongodb://staging:27017/fit'' \<and>
   dbUrl [(''HOME'', ''/root'')] = ''mongodb://localhost:27017/maxfitness''"
  using dbUrl_source [of "[(''HOME'', ''/root''), (''DB_URL'', ''mongodb://staging:27017/fit'')]" "''mongodb://staging:27017/fit''"]
    dbUrl_source [of "[(''HOME'', ''/root'')]"]
  by simp

text \<open>
  C7 as first stated takes the variable whenever it is present. With
  \<^verbatim>\<open>DB_URL\<close> present and empty the left operand of \<^verbatim>\<open>||\<close> is not
  truthy, and the address is the local default, not the value of the
  variable.
\<close>

theorem dbUrl_empty_variable:
  "map_of [(''DB_URL'', '''')] ''DB_URL'' = Some '''' \<and>
   dbUrl [(''DB_URL'', '''')] = ''mongodb://localhost:27017/maxfitness'' \<and>
   dbUrl [(''DB_URL'', '''')] \<noteq> ''''"
  by (simp add: dbUrl_def js_or_def)

section \<open>createClient, one call\<close>

text \<open>
  The three ways through \<open>createClient\<close>: the cache answers; the connection
  fails; the connection succeeds.
\<close>

lemma connectionOpts_map:
  "map_of (connectionOpts options) =
     (map_of (spread options))(''useNewUrlParser'' \<mapsto> JBool True, ''useUnifiedTopology'' \<mapsto> JBool True)"
  by (simp add: connectionOpts_def map_of_set_prop)

lemma createClient_hit:
  "get_prop (clientCache s) url = Some v \<Longrightarrow> createClient drv url options s = (Inr v, s)"
  by (simp add: createClient_def)

lemma createClient_miss_fail:
  assumes "get_prop (clientCache s) url = None"
    and "MongoClient_connect drv url (connectionOpts options) (world (ext s)) = (Inl err, w)"
  shows "createClient drv url options s =
    (Inl err, s\<lparr>ext := \<lparr>world = w, calls = calls (ext s) @ [(Connect url (connectionOpts options), False)]\<rparr>\<rparr>)"
  using assms by (simp add: createClient_def await_def)

lemma createClient_miss_ok:
  assumes "get_prop (clientCache s) url = None"
    and "MongoClient_connect drv url (connectionOpts options) (world (ext s)) = (Inr c, w)"
  shows "createClient drv url options s =
    (Inr (Handle \<lparr>oid = next_oid s + 1, client = c, db = client_db drv c\<rparr>),
     s\<lparr>clientCache := set_prop url \<lparr>oid = next_oid s, client = c, db = client_db drv c\<rparr> (clientCache s),
       next_oid := next_oid s + 2,
       ext := \<lparr>world = w, calls = calls (ext s) @ [(Connect url (connectionOpts options), True)]\<rparr>\<rparr>)"
  using assms by (simp add: createClient_def await_def Let_def)

lemma same_session_refl: "same_session v v"
  by (cases v) simp_all

lemma get_prop_set_prop:
  "get_prop (set_prop k h cache) k' = (if k' = k then Some (Handle h) else get_prop cache k')"
  by (simp add: get_prop_def map_of_set_prop)


lemmas run_defs =
  createClient_def await_def init_state_def scripted_def scripted_connect_def
  get_prop_def object_prototype_keys_def connectionOpts_def spread_def Let_def

text \<open>
  C1, as found in the code: for every address, when a call of \<open>createClient\<close>
  has returned a handle, the next call with that address (whatever its
  options) returns the handle kept in the cache, which holds the same client
  and the same database as the handle the first call returned, and it leaves
  the state as it was: no driver operation is issued, so no new session is
  opened.
\<close>

theorem createClient_twice:
  assumes "createClient drv url options1 s = (Inr v1, s1)"
  shows "\<exists>v2. createClient drv url options2 s1 = (Inr v2, s1) \<and>
              get_prop (clientCache s1) url = Some v2 \<and> same_session v1 v2"
proof (cases "get_prop (clientCache s) url")
  case (Some v)
  with assms have "v1 = v" "s1 = s"
    by (simp_all add: createClient_hit)
  with Some show ?thesis
    by (simp add: createClient_hit same_session_refl)
next
  case None
  obtain r w where conn:
    "MongoClient_connect drv url (connectionOpts options1) (world (ext s)) = (r, w)"
    by (cases "MongoClient_connect drv url (connectionOpts options1) (world (ext s))")
  show ?thesis
  proof (cases r)
    case (Inl err)
    with None conn assms show ?thesis
      by (simp add: createClient_miss_fail)
  next
    case (Inr c)
    let ?stored = "\<lparr>oid = next_oid s, client = c, db = client_db drv c\<rparr>"
    from None conn Inr assms
    have v1: "v1 = Handle \<lparr>oid = next_oid s + 1, client = c, db = client_db drv c\<rparr>"
      and s1: "clientCache s1 = set_prop url ?stored (clientCache s)"
      by (auto simp: createClient_miss_ok)
    from s1 have hit: "get_prop (clientCache s1) url = Some (Handle ?stored)"
      by (simp add: get_prop_set_prop)
    with v1 show ?thesis
      by (simp add: createClient_hit)
  qed
qed

text \<open>
  Two calls for the local address against a server that accepts the first
  connection as client 7.
\<close>

theorem createClient_twice_witness:
  "fst (createClient scripted ''mongodb://localhost:27017/maxfitness'' None (init_state [Inr 7]))
     = Inr (Handle \<lparr>oid = 1, client = 7, db = (''db'', 7)\<rparr>) \<and>
   (\<exists>v2. createClient scripted ''mongodb://localhost:27017/maxfitness'' (Some [(''poolSize'', JNum 5)])
            (snd (createClient scripted ''mongodb://localhost:27017/maxfitness'' None (init_state [Inr 7])))
          = (Inr v2, snd (createClient scripted ''mongodb://localhost:27017/maxfitness'' None (init_state [Inr 7]))) \<and>
          same_session (Handle \<lparr>oid = 1, client = 7, db = (''db'', 7)\<rparr>) v2)"
proof -
  let ?first = "createClient scripted ''mongodb://localhost:27017/maxfitness'' None (init_state [Inr 7])"
  have res: "fst ?first = Inr (Handle \<lparr>oid = 1, client = 7, db = (''db'', 7)\<rparr>)"
    by (simp add: run_defs)
  then have "?first = (Inr (Handle \<lparr>oid = 1, client = 7, db = (''db'', 7)\<rparr>), snd ?first)"
    by (simp add: prod_eq_iff)
  from createClient_twice [OF this, of "Some [(''poolSize'', JNum 5)]"] res
  show ?thesis by blast
qed

text \<open>
  C1 as first stated says that the second call returns the very object the
  first call returned. The first call evaluates \<^verbatim>\<open>{client, db}\<close> twice:
  once for the cache and once for its result. The second call returns the
  object in the cache, so the two results are different objects (identities
  1 and 0) that hold the same client and database.
\<close>

theorem createClient_twice_distinct_objects:
  "fst (createClient scripted ''mongodb://localhost:27017/maxfitness'' None (init_state [Inr 7]))
     = Inr (Handle \<lparr>oid = 1, client = 7, db = (''db'', 7)\<rparr>) \<and>
   fst (createClient scripted ''mongodb://localhost:27017/maxfitness'' None
          (snd (createClient scripted ''mongodb://localhost:27017/maxfitness'' None (init_state [Inr 7]))))
     = Inr (Handle \<lparr>oid = 0, client = 7, db = (''db'', 7)\<rparr>)"
  by (simp add: createClient_def await_def init_state_def scripted_def scripted_connect_def
      get_prop_def object_prototype_keys_def Let_def)

text \<open>
  C3: when the address is not in the cache and opening the session fails,
  \<open>createClient\<close> returns that failure and the cache is as before, with no
  entry for the address. The next call with the address (whatever its
  options) issues a connect again, and its result is the outcome of that new
  connect: its error, or a handle on the client just connected.
\<close>

theorem createClient_failure_not_cached:
  assumes "get_prop (clientCache s) url = None"
    and "MongoClient_connect drv url (connectionOpts options) (world (ext s)) = (Inl err, w)"
    and "createClient drv url options s = (r, s')"
  shows "r = Inl err \<and> clientCache s' = clientCache s \<and> get_prop (clientCache s') url = None \<and>
         calls (ext (snd (createClient drv url options2 s'))) =
           calls (ext s') @
             [(Connect url (connectionOpts options2),
               succeeded (fst (MongoClient_connect drv url (connectionOpts options2) (world (ext s')))))] \<and>
         fst (createClient drv url options2 s') =
           map_sum id (\<lambda>c. Handle \<lparr>oid = next_oid s' + 1, client = c, db = client_db drv c\<rparr>)
             (fst (MongoClient_connect drv url (connectionOpts options2) (world (ext s'))))"
proof -
  from assms have r: "r = Inl err"
    and s': "s' = s\<lparr>ext := \<lparr>world = w, calls = calls (ext s) @ [(Connect url (connectionOpts options), False)]\<rparr>\<rparr>"
    by (simp_all add: createClient_miss_fail)
  from s' assms(1) have miss: "get_prop (clientCache s') url = None"
    by simp
  obtain r2 w2 where conn:
    "MongoClient_connect drv url (connectionOpts options2) (world (ext s')) = (r2, w2)"
    by (cases "MongoClient_connect drv url (connectionOpts options2) (world (ext s'))")
  have "calls (ext (snd (createClient drv url options2 s'))) =
          calls (ext s') @ [(Connect url (connectionOpts options2), succeeded r2)] \<and>
        fst (createClient drv url options2 s') =
          map_sum id (\<lambda>c. Handle \<lparr>oid = next_oid s' + 1, client = c, db = client_db drv c\<rparr>) r2"
  proof (cases r2)
    case (Inl e2)
    with miss conn show ?thesis
      by (simp add: createClient_miss_fail)
  next
    case (Inr c2)
    with miss conn show ?thesis
      by (simp add: createClient_miss_ok)
  qed
  with r s' miss conn show ?thesis
    by simp
qed

text \<open>
  A server that refuses the first connection and accepts the second as
  client 7: the first call fails and stores nothing, the second call returns
  a handle on client 7.
\<close>

theorem createClient_failure_not_cached_witness:
  "createClient scripted ''mongodb://localhost:27017/maxfitness'' None
      (init_state [Inl (MongoError ''ECONNREFUSED''), Inr 7]) =
     (Inl (MongoError ''ECONNREFUSED''),
      \<lparr>clientCache = [], next_oid = 0,
       ext = \<lparr>world = [Inr 7],
              calls = [(Connect ''mongodb://localhost:27017/maxfitness''
                         [(''useNewUrlParser'', JBool True), (''useUnifiedTopology'', JBool True)], False)]\<rparr>\<rparr>) \<and>
   fst (createClient scripted ''mongodb://localhost:27017/maxfitness'' None
      \<lparr>clientCache = [], next_oid = 0,
       ext = \<lparr>world = [Inr 7],
              calls = [(Connect ''mongodb://localhost:27017/maxfitness''
                         [(''useNewUrlParser'', JBool True), (''useUnifiedTopology'', JBool True)], False)]\<rparr>\<rparr>)
     = Inr (Handle \<lparr>oid = 1, client = 7, db = (''db'', 7)\<rparr>)"
proof -
  let ?s = "init_state [Inl (MongoError ''ECONNREFUSED''), Inr 7] :: (nat, string \<times> nat, (error + nat) list) state"
  let ?url = "''mongodb://localhost:27017/maxfitness''"
  have miss: "get_prop (clientCache ?s) ?url = None"
    by (simp add: run_defs)
  have fail: "MongoClient_connect scripted ?url (connectionOpts None) (world (ext ?s))
                = (Inl (MongoError ''ECONNREFUSED''), [Inr 7])"
    by (simp add: run_defs)
  have run: "createClient scripted ?url None ?s =
     (Inl (MongoError ''ECONNREFUSED''),
      \<lparr>clientCache = [], next_oid = 0,
       ext = \<lparr>world = [Inr 7],
              calls = [(Connect ''mongodb://localhost:27017/maxfitness''
                         [(''useNewUrlParser'', JBool True), (''useUnifiedTopology'', JBool True)], False)]\<rparr>\<rparr>)"
    by (simp add: run_defs)
  from createClient_failure_not_cached [OF miss fail run, of None] run
  show ?thesis
    by (simp add: scripted_def scripted_connect_def)
qed

text \<open>
  C6, as found in the code: on a cache miss \<open>createClient\<close> issues exactly one
  connect, for the given address, with the caller's options in which
  \<^verbatim>\<open>useNewUrlParser\<close> and \<^verbatim>\<open>useUnifiedTopology\<close> have been set to
  \<^verbatim>\<open>true\<close>. Every other entry of the caller is kept; for these two keys the
  fixed values replace whatever the caller gave.
\<close>

theorem createClient_connectionOpts:
  assumes "get_prop (clientCache s) url = None"
  shows "calls (ext (snd (createClient drv url options s))) =
           calls (ext s) @
             [(Connect url (connectionOpts options),
               succeeded (fst (MongoClient_connect drv url (connectionOpts options) (world (ext s)))))] \<and>
         map_of (connectionOpts options) =
           (map_of (spread options))
             (''useNewUrlParser'' \<mapsto> JBool True, ''useUnifiedTopology'' \<mapsto> JBool True)"
proof -
  obtain r w where conn:
    "MongoClient_connect drv url (connectionOpts options) (world (ext s)) = (r, w)"
    by (cases "MongoClient_connect drv url (connectionOpts options) (world (ext s))")
  have "calls (ext (snd (createClient drv url options s))) =
          calls (ext s) @ [(Connect url (connectionOpts options), succeeded r)]"
  proof (cases r)
    case (Inl e)
    with assms conn show ?thesis
      by (simp add: createClient_miss_fail)
  next
    case (Inr c)
    with assms conn show ?thesis
      by (simp add: createClient_miss_ok)
  qed
  with conn show ?thesis
    by (simp add: connectionOpts_map)
qed

text \<open>
  A caller giving \<^verbatim>\<open>{poolSize: 5}\<close>: the connect is issued with that
  entry and the two fixed ones.
\<close>

theorem createClient_connectionOpts_witness:
  "calls (ext (snd (createClient scripted ''mongodb://localhost:27017/maxfitness''
                     (Some [(''poolSize'', JNum 5)]) (init_state [Inr 7])))) =
     [(Connect ''mongodb://localhost:27017/maxfitness''
         [(''poolSize'', JNum 5), (''useNewUrlParser'', JBool True), (''useUnifiedTopology'', JBool True)],
       True)]"
proof -
  let ?s = "init_state [Inr 7] :: (nat, string \<times> nat, (error + nat) list) state"
  have miss: "get_prop (clientCache ?s) ''mongodb://localhost:27017/maxfitness'' = None"
    by (simp add: run_defs)
  from createClient_connectionOpts [OF miss, of scripted "Some [(''poolSize'', JNum 5)]"]
  show ?thesis
    by (simp add: init_state_def scripted_def scripted_connect_def connectionOpts_def spread_def)
qed

text \<open>
  C6 as first stated lets the caller's entries override the two protocol
  options. A caller giving \<^verbatim>\<open>{useNewUrlParser: false, poolSize: 5}\<close> gets
  a connect with \<^verbatim>\<open>useNewUrlParser: true\<close>: the fixed value has replaced
  the caller's.
\<close>

theorem createClient_fixed_options_win:
  "calls (ext (snd (createClient scripted ''mongodb://localhost:27017/maxfitness''
                     (Some [(''useNewUrlParser'', JBool False), (''poolSize'', JNum 5)])
                     (init_state [Inr 7])))) =
     [(Connect ''mongodb://localhost:27017/maxfitness''
         [(''useNewUrlParser'', JBool True), (''poolSize'', JNum 5), (''useUnifiedTopology'', JBool True)],
       True)]"
  by (simp add: run_defs)

text \<open>
  C9: when the cache answers for an address, \<open>createClient\<close> returns the
  cached value and leaves the state as it was, whatever the options: two
  calls that differ only in their options return the same handle. The
  handle the cache holds for an address is the one made when the address
  was first connected: it holds the client that connect returned for the
  options of that first call.
\<close>

theorem createClient_cached_ignores_options:
  "(get_prop (clientCache s) url = Some v \<longrightarrow>
      createClient drv url options_a s = (Inr v, s) \<and>
      createClient drv url options_b s = (Inr v, s)) \<and>
   (get_prop (clientCache s) url = None \<and>
    MongoClient_connect drv url (connectionOpts options_first) (world (ext s)) = (Inr c, w) \<longrightarrow>
      get_prop (clientCache (snd (createClient drv url options_first s))) url =
        Some (Handle \<lparr>oid = next_oid s, client = c, db = client_db drv c\<rparr>))"
  by (simp add: createClient_hit createClient_miss_ok get_prop_set_prop)

text \<open>
  The address is first connected with \<^verbatim>\<open>{poolSize: 5}\<close>; later calls with
  no options and with \<^verbatim>\<open>{poolSize: 1}\<close> both return the cached handle.
\<close>

theorem createClient_cached_ignores_options_witness:
  "get_prop (clientCache (snd (createClient scripted ''mongodb://localhost:27017/maxfitness''
       (Some [(''poolSize'', JNum 5)]) (init_state [Inr 7])))) ''mongodb://localhost:27017/maxfitness''
     = Some (Handle \<lparr>oid = 0, client = 7, db = (''db'', 7)\<rparr>) \<and>
   fst (createClient scripted ''mongodb://localhost:27017/maxfitness'' None
     (snd (createClient scripted ''mongodb://localhost:27017/maxfitness''
       (Some [(''poolSize'', JNum 5)]) (init_state [Inr 7]))))
     = Inr (Handle \<lparr>oid = 0, client = 7, db = (''db'', 7)\<rparr>) \<and>
   fst (createClient scripted ''mongodb://localhost:27017/maxfitness'' (Some [(''poolSize'', JNum 1)])
     (snd (createClient scripted ''mongodb://localhost:27017/maxfitness''
       (Some [(''poolSize'', JNum 5)]) (init_state [Inr 7]))))
     = Inr (Handle \<lparr>oid = 0, client = 7, db = (''db'', 7)\<rparr>)"
proof -
  let ?start = "init_state [Inr 7] :: (nat, string \<times> nat, (error + nat) list) state"
  let ?url = "''mongodb://localhost:27017/maxfitness''"
  let ?s = "snd (createClient scripted ?url (Some [(''poolSize'', JNum 5)]) ?start)"
  let ?h = "Handle \<lparr>oid = 0, client = 7, db = (''db'', 7)\<rparr> :: (nat, string \<times> nat) cached"
  have miss: "get_prop (clientCache ?start) ?url = None"
    by (simp add: run_defs)
  have conn: "MongoClient_connect scripted ?url (connectionOpts (Some [(''poolSize'', JNum 5)])) (world (ext ?start))
                = (Inr 7, [])"
    by (simp add: run_defs)
  from createClient_cached_ignores_options
         [where s = ?start and url = ?url and drv = scripted and c = 7 and w = "[]"
            and options_first = "Some [(''poolSize'', JNum 5)]"]
    miss conn
  have cached: "get_prop (clientCache ?s) ?url = Some ?h"
    by (simp add: init_state_def scripted_def)
  from createClient_cached_ignores_options
         [where s = ?s and url = ?url and drv = scripted and v = ?h
            and options_a = None and options_b = "Some [(''poolSize'', JNum 1)]"]
    cached
  have "createClient scripted ?url None ?s = (Inr ?h, ?s)"
    and "createClient scripted ?url (Some [(''poolSize'', JNum 1)]) ?s = (Inr ?h, ?s)"
    by simp_all
  with cached show ?thesis
    by simp
qed

section \<open>createClient, any number of calls\<close>


















section \<open>The helpers\<close>

lemma await_eq:
  "await c op e = (fst (op (world e)),
      \<lparr>world = snd (op (world e)), calls = calls e @ [(c, succeeded (fst (op (world e))))]\<rparr>)"
  by (simp add: await_def split: prod.splits)

lemma fst_discard: "fst (discard p) = map_sum id (\<lambda>_. ()) (fst p)"
  by (auto simp: discard_def split: prod.splits sum.splits)

lemma snd_discard: "snd (discard p) = snd p"
  by (auto simp: discard_def split: prod.splits sum.splits)

lemmas store_defs =
  store_db_def store_dropCollection_def store_insertOne_def store_aggregate_def docs_of_def
  await_def discard_def

text \<open>
  C5: for an array, \<open>insertResource\<close> issues exactly one driver operation,
  \<^verbatim>\<open>insertMany\<close> on the named collection with the whole array; for any
  other value it issues exactly one, \<^verbatim>\<open>insertOne\<close> with that value. It
  returns once the operation has completed: the world it returns is the one
  the operation leaves, and an error of the operation is its result.
\<close>

theorem insertResource_dispatch:
  "(isArray resource \<longrightarrow>
      insertResource database c resource e =
        (map_sum id (\<lambda>_. ()) (fst (collection_insertMany database c resource (world e))),
         \<lparr>world = snd (collection_insertMany database c resource (world e)),
          calls = calls e @
            [(InsertMany c resource, succeeded (fst (collection_insertMany database c resource (world e))))]\<rparr>)) \<and>
   (\<not> isArray resource \<longrightarrow>
      insertResource database c resource e =
        (map_sum id (\<lambda>_. ()) (fst (collection_insertOne database c resource (world e))),
         \<lparr>world = snd (collection_insertOne database c resource (world e)),
          calls = calls e @
            [(InsertOne c resource, succeeded (fst (collection_insertOne database c resource (world e))))]\<rparr>))"
  by (simp add: insertResource_def prod_eq_iff fst_discard snd_discard await_eq)

text \<open>
  Two members inserted as an array, and one member inserted alone.
\<close>

theorem insertResource_dispatch_witness:
  "insertResource store_db ''member''
      (JArr [JObj [(''_id'', JStr ''M1'')], JObj [(''_id'', JStr ''M2'')]])
      \<lparr>world = [], calls = []\<rparr> =
     (Inr (),
      \<lparr>world = [(''member'', [JObj [(''_id'', JStr ''M1'')], JObj [(''_id'', JStr ''M2'')]])],
       calls = [(InsertMany ''member'' (JArr [JObj [(''_id'', JStr ''M1'')], JObj [(''_id'', JStr ''M2'')]]), True)]\<rparr>) \<and>
   insertResource store_db ''member'' (JObj [(''_id'', JStr ''M1''), (''active'', JBool False)])
      \<lparr>world = [], calls = []\<rparr> =
     (Inr (),
      \<lparr>world = [(''member'', [JObj [(''_id'', JStr ''M1''), (''active'', JBool False)]])],
       calls = [(InsertOne ''member'' (JObj [(''_id'', JStr ''M1''), (''active'', JBool False)]), True)]\<rparr>)"
  using insertResource_dispatch
          [of "JArr [JObj [(''_id'', JStr ''M1'')], JObj [(''_id'', JStr ''M2'')]]"
              store_db "''member''" "\<lparr>world = [], calls = []\<rparr>"]
        insertResource_dispatch
          [of "JObj [(''_id'', JStr ''M1''), (''active'', JBool False)]"
              store_db "''member''" "\<lparr>world = [], calls = []\<rparr>"]
  by (simp add: store_defs)

text \<open>
  C10: \<open>insertResource\<close> chooses by \<^verbatim>\<open>Array.isArray\<close> alone, which holds
  of every array whatever its length and of nothing else. For an array it
  issues the one \<^verbatim>\<open>insertMany\<close> with that array and returns what that
  operation gives: its error or nothing, and the world it leaves. For any
  other value it does the same with \<^verbatim>\<open>insertOne\<close>. For the empty array
  in particular the operation issued is \<^verbatim>\<open>insertMany\<close> with no documents:
  the call is not skipped and is not an \<^verbatim>\<open>insertOne\<close>.
\<close>

theorem insertResource_array_any_length:
  "insertResource database c resource e =
     (if isArray resource
      then (map_sum id (\<lambda>_. ()) (fst (collection_insertMany database c resource (world e))),
            \<lparr>world = snd (collection_insertMany database c resource (world e)),
             calls = calls e @
               [(InsertMany c resource,
                 succeeded (fst (collection_insertMany database c resource (world e))))]\<rparr>)
      else (map_sum id (\<lambda>_. ()) (fst (collection_insertOne database c resource (world e))),
            \<lparr>world = snd (collection_insertOne database c resource (world e)),
             calls = calls e @
               [(InsertOne c resource,
                 succeeded (fst (collection_insertOne database c resource (world e))))]\<rparr>)) \<and>
   isArray resource = (\<exists>docs. resource = JArr docs) \<and>
   insertResource database c (JArr []) e =
     (map_sum id (\<lambda>_. ()) (fst (collection_insertMany database c (JArr []) (world e))),
      \<lparr>world = snd (collection_insertMany database c (JArr []) (world e)),
       calls = calls e @
         [(InsertMany c (JArr []),
           succeeded (fst (collection_insertMany database c (JArr []) (world e))))]\<rparr>)"
proof -
  have "isArray resource = (\<exists>docs. resource = JArr docs)"
    by (cases resource) simp_all
  then show ?thesis
    by (simp add: insertResource_def prod_eq_iff fst_discard snd_discard await_eq)
qed

text \<open>
  The empty array reaches the database as an \<^verbatim>\<open>insertMany\<close>, whose error
  comes back to the caller; an array of one document is an \<^verbatim>\<open>insertMany\<close>
  too; a string, which has a length but is not an array, is an
  \<^verbatim>\<open>insertOne\<close>.
\<close>

theorem insertResource_array_any_length_witness:
  "insertResource store_db ''member'' (JArr []) \<lparr>world = [], calls = []\<rparr> =
     (Inl (MongoError ''Invalid Operation, no operations specified''),
      \<lparr>world = [], calls = [(InsertMany ''member'' (JArr []), False)]\<rparr>) \<and>
   insertResource store_db ''member'' (JArr [JObj [(''_id'', JStr ''M1'')]]) \<lparr>world = [], calls = []\<rparr> =
     (Inr (),
      \<lparr>world = [(''member'', [JObj [(''_id'', JStr ''M1'')]])],
       calls = [(InsertMany ''member'' (JArr [JObj [(''_id'', JStr ''M1'')]]), True)]\<rparr>) \<and>
   insertResource store_db ''member'' (JStr ''ab'') \<lparr>world = [], calls = []\<rparr> =
     (Inr (),
      \<lparr>world = [(''member'', [JStr ''ab''])],
       calls = [(InsertOne ''member'' (JStr ''ab''), True)]\<rparr>)"
  using insertResource_array_any_length
          [of store_db "''member''" "JArr []" "\<lparr>world = [], calls = []\<rparr>"]
        insertResource_array_any_length
          [of store_db "''member''" "JArr [JObj [(''_id'', JStr ''M1'')]]" "\<lparr>world = [], calls = []\<rparr>"]
        insertResource_array_any_length
          [of store_db "''member''" "JStr ''ab''" "\<lparr>world = [], calls = []\<rparr>"]
  by (simp add: store_defs)

text \<open>
  C8: \<open>aggregate\<close> issues one operation, the aggregation of the given
  pipeline on the named collection drained into an array, and returns its
  outcome as it is: the same documents in the same order, or the same
  error.
\<close>

theorem aggregate_materialized:
  "aggregate database c pipeline e =
     (fst (collection_aggregate_toArray database c pipeline (world e)),
      \<lparr>world = snd (collection_aggregate_toArray database c pipeline (world e)),
       calls = calls e @
         [(Aggregate c pipeline, succeeded (fst (collection_aggregate_toArray database c pipeline (world e))))]\<rparr>)"
  by (simp add: aggregate_def await_eq)







end
